theory Spec2Isabelle
  imports
    Main
    "HOL-Library.Word"
    "HOL-Library.Char_ord"
    "HOL-Library.List_Lexorder"
    "HOL-Library.AList"
    "HOL-Library.Sublist"
begin

unbundle bit_operations_syntax

section \<open>Container image promoter: the consistency checks of lib/dockerregistry/checks.go\<close>

text \<open>
  The development embeds the functions of \<^verbatim>\<open>lib/dockerregistry/checks.go\<close>
  (package \<^verbatim>\<open>inventory\<close>): the MiB/byte conversions, the construction and the
  run of the image removal check, its comparison of two promotion-edge sets, the image
  size check and the rendering of its error.

  Conventions of the embedding.
  \<^item> Go's \<^verbatim>\<open>int\<close> is the 64-bit two's complement integer of the amd64 target the
    promoter is built for: a \<open>64 word\<close>, read with \<open>sint\<close>. \<^verbatim>\<open><<\<close> is
    \<open>push_bit\<close> and \<^verbatim>\<open>>>\<close> on a signed operand is \<open>signed_drop_bit\<close>.
  \<^item> A Go \<^verbatim>\<open>string\<close> is a byte sequence: a \<open>string\<close> (\<open>char list\<close>), whose
    \<open>length\<close> is Go's \<^verbatim>\<open>len\<close>.
  \<^item> A Go \<^verbatim>\<open>map[PromotionEdge]interface{}\<close> used as a set is given to a function as
    the list of its keys in the order in which \<^verbatim>\<open>range\<close> visits them. Go leaves that
    order unspecified, so one set is represented by each of its enumerations.
  \<^item> A Go \<^verbatim>\<open>map[string]int\<close> that the code builds is an association list updated
    with \<open>AList.update\<close>; only its length, its keys and its lookups are read.
  \<^item> A returned \<^verbatim>\<open>error\<close> is an \<open>option\<close> (\<open>None\<close> is \<^verbatim>\<open>nil\<close>) or the left
    summand of a sum.
\<close>

subsection \<open>Go library functions used by the checks\<close>

type_synonym goint = "64 word"

text \<open>\<^verbatim>\<open>fmt.Sprint\<close> and the verb \<^verbatim>\<open>%d\<close> on an integer: its decimal digits, with a
  leading minus sign for a negative value.\<close>

fun natToString :: "nat \<Rightarrow> string" where
  "natToString n =
     (if n < 10 then [char_of (48 + n)]
      else natToString (n div 10) @ [char_of (48 + n mod 10)])"

declare natToString.simps [simp del]

definition Sprint :: "int \<Rightarrow> string" where
  "Sprint i = (if i < 0 then CHR ''-'' # natToString (nat (- i)) else natToString (nat i))"

text \<open>\<^verbatim>\<open>strings.Join(elems, sep)\<close>.\<close>

fun Join :: "string list \<Rightarrow> string \<Rightarrow> string" where
  "Join [] sep = []"
| "Join [x] sep = x"
| "Join (x # y # ys) sep = x @ sep @ Join (y # ys) sep"

text \<open>\<^verbatim>\<open>sort.Strings\<close> sorts by the bytewise lexicographic order of Go strings, which
  is the order of \<open>char list\<close> here (characters compared by their code).\<close>

definition Strings :: "string list \<Rightarrow> string list" where
  "Strings a = sort a"

text \<open>\<^verbatim>\<open>os.Getenv\<close>: the value of the variable, empty when the variable is unset.\<close>

type_synonym environ = "string \<rightharpoonup> string"

definition Getenv :: "environ \<Rightarrow> string \<Rightarrow> string" where
  "Getenv env key = (case env key of None \<Rightarrow> [] | Some v \<Rightarrow> v)"

text \<open>\<^verbatim>\<open>encoding/hex\<close>: \<^verbatim>\<open>DecodeString\<close> reads two characters per byte and fails
  with \<^verbatim>\<open>InvalidByteError\<close> at the first character that is no hexadecimal digit (of
  either case), or with \<^verbatim>\<open>ErrLength\<close> when the length is odd.\<close>

datatype hex_error = ErrLength | InvalidByteError char

definition fromHexChar :: "char \<Rightarrow> 8 word option" where
  "fromHexChar c =
     (let n = (of_char c :: nat) in
      if 48 \<le> n \<and> n \<le> 57 then Some (of_nat (n - 48))
      else if 97 \<le> n \<and> n \<le> 102 then Some (of_nat (n - 97 + 10))
      else if 65 \<le> n \<and> n \<le> 70 then Some (of_nat (n - 65 + 10))
      else None)"

fun DecodeString :: "string \<Rightarrow> hex_error + 8 word list" where
  "DecodeString [] = Inr []"
| "DecodeString [p] =
     (case fromHexChar p of None \<Rightarrow> Inl (InvalidByteError p) | Some a \<Rightarrow> Inl ErrLength)"
| "DecodeString (p # q # rest) =
     (case fromHexChar p of
        None \<Rightarrow> Inl (InvalidByteError p)
      | Some a \<Rightarrow>
          (case fromHexChar q of
             None \<Rightarrow> Inl (InvalidByteError q)
           | Some b \<Rightarrow>
               (case DecodeString rest of
                  Inl e \<Rightarrow> Inl e
                | Inr bs \<Rightarrow> Inr ((push_bit 4 a OR b) # bs))))"

text \<open>The bytes that \<^verbatim>\<open>DecodeString\<close> returns beside its error: those decoded before
  the first character that is no hexadecimal digit (all of them when there is no
  error; a trailing single character gives no byte).\<close>

fun decodedBytes :: "string \<Rightarrow> 8 word list" where
  "decodedBytes (p # q # rest) =
     (case fromHexChar p of
        None \<Rightarrow> []
      | Some a \<Rightarrow>
          (case fromHexChar q of
             None \<Rightarrow> []
           | Some b \<Rightarrow> (push_bit 4 a OR b) # decodedBytes rest))"
| "decodedBytes rest = []"

text \<open>\<^verbatim>\<open>plumbing.Hash\<close> of go-git is an array of 20 bytes; \<^verbatim>\<open>plumbing.NewHash\<close>
  decodes the hexadecimal text, ignores a decoding error and copies the bytes that
  were decoded, at most 20, into a zeroed array.\<close>

type_synonym Hash = "8 word list"

definition NewHash :: "string \<Rightarrow> Hash" where
  "NewHash s = (let b = decodedBytes s in take 20 (b @ replicate 20 0))"

subsection \<open>Data model\<close>

text \<open>Modelled from the spec: the declarations of \<^verbatim>\<open>ImageTag\<close> and
  \<^verbatim>\<open>PromotionEdge\<close> are not among the source files. The code reads
  \<^verbatim>\<open>edge.DstImageTag.ImageName\<close> and \<^verbatim>\<open>edge.Digest\<close>; the specification gives
  \<open>DstImageTag\<close> as the pair of destination image path and tag (the tag may be empty),
  and a promotion edge as \<open>{DstImageTag, Digest}\<close>, optionally carrying the digest of
  an enclosing fat manifest.\<close>

record ImageTag =
  ImageName :: string
  Tag :: string

record PromotionEdge =
  DstImageTag :: ImageTag
  Digest :: string
  ParentDigest :: "string option"

record ImageRemovalCheck =
  GitRepoPath :: string
  MasterSHA :: Hash
  PullRequestSHA :: Hash
  PullEdges :: "PromotionEdge list"

text \<open>\<^verbatim>\<open>DigestImageSize\<close> is a Go map from digest to size in bytes.\<close>

type_synonym DigestImageSize = "string \<rightharpoonup> goint"

record ImageSizeCheck =
  MaxImageSize :: goint
  DigestImageSize :: DigestImageSize
  PullEdges :: "PromotionEdge list"

record ImageSizeError =
  MaxImageSize :: goint
  OversizedImages :: "(string \<times> goint) list"
  InvalidImages :: "(string \<times> goint) list"

subsection \<open>MiB and bytes\<close>

definition MBToBytes :: "goint \<Rightarrow> goint" where
  "MBToBytes v = push_bit 20 v"

definition BytesToMB :: "goint \<Rightarrow> goint" where
  "BytesToMB v = signed_drop_bit 20 v"

subsection \<open>Construction of the image removal check\<close>

datatype sha_error =
  BadLength nat nat  \<comment> \<open>"Length of SHA is %d characters, should be %d"\<close>
| NotValidSHA hex_error  \<comment> \<open>"Not a valid SHA: %v"\<close>

datatype mk_error =
  EnvInvalid string sha_error  \<comment> \<open>"The <variable> environment variable is invalid: %v"\<close>

definition getGitShaFromEnv :: "environ \<Rightarrow> string \<Rightarrow> sha_error + Hash" where
  "getGitShaFromEnv env envVar =
     (let potenitalSHA = Getenv env envVar; gitShaLength = 40 in
      if length potenitalSHA \<noteq> gitShaLength
      then Inl (BadLength (length potenitalSHA) gitShaLength)
      else (case DecodeString potenitalSHA of
              Inl err \<Rightarrow> Inl (NotValidSHA err)
            | Inr bs \<Rightarrow> Inr (NewHash potenitalSHA)))"

definition MKRealImageRemovalCheck ::
  "environ \<Rightarrow> string \<Rightarrow> PromotionEdge list \<Rightarrow> mk_error + ImageRemovalCheck" where
  "MKRealImageRemovalCheck env gitRepoPath edges =
     (case getGitShaFromEnv env ''PULL_BASE_SHA'' of
        Inl err \<Rightarrow> Inl (EnvInvalid ''PULL_BASE_SHA'' err)
      | Inr masterSHA \<Rightarrow>
          (case getGitShaFromEnv env ''PULL_PULL_SHA'' of
             Inl err \<Rightarrow> Inl (EnvInvalid ''PULL_PULL_SHA'' err)
           | Inr pullRequestSHA \<Rightarrow>
               Inr \<lparr>GitRepoPath = gitRepoPath, MasterSHA = masterSHA,
                    PullRequestSHA = pullRequestSHA,
                    ImageRemovalCheck.PullEdges = edges\<rparr>))"

text \<open>A well-formed revision identifier in the words of the specification: exactly
  40 characters, each of them a hexadecimal digit.\<close>

definition validSHA :: "string \<Rightarrow> bool" where
  "validSHA s \<longleftrightarrow> length s = 40 \<and> (\<forall>c \<in> set s. c \<in> set ''0123456789abcdefABCDEF'')"

subsection \<open>Comparison of two promotion-edge sets\<close>

text \<open>The composite literal \<^verbatim>\<open>PromotionEdge{DstImageTag: ..., Digest: ...}\<close> keeps the
  two named fields and leaves every other field at its zero value.\<close>

definition projection :: "PromotionEdge \<Rightarrow> PromotionEdge" where
  "projection edge =
     \<lparr>DstImageTag = DstImageTag edge, Digest = Digest edge, ParentDigest = None\<rparr>"

text \<open>The first loop of \<^verbatim>\<open>Compare\<close>: the set of projections of the pull request's
  edges.\<close>

definition destinationImages :: "PromotionEdge list \<Rightarrow> PromotionEdge set" where
  "destinationImages edgesPullRequest =
     fold (\<lambda>edge m. insert (projection edge) m) edgesPullRequest {}"

text \<open>The second loop: the image name of every master edge whose projection is not
  found, appended in the order of the iteration.\<close>

definition removedImages :: "PromotionEdge set \<Rightarrow> PromotionEdge list \<Rightarrow> string list" where
  "removedImages dst edgesMaster =
     fold (\<lambda>edge removed.
             if projection edge \<notin> dst then removed @ [ImageName (DstImageTag edge)]
             else removed)
          edgesMaster []"

definition Compare :: "PromotionEdge list \<Rightarrow> PromotionEdge list \<Rightarrow> string option" where
  "Compare edgesMaster edgesPullRequest =
     (let removed = removedImages (destinationImages edgesPullRequest) edgesMaster in
      if length removed > 0
      then Some (''The following images were removed in this pull request: ''
                 @ Join removed '', '')
      else None)"

subsection \<open>Running the image removal check\<close>

text \<open>
  \<^verbatim>\<open>Run\<close> talks to go-git and to the manifest parser, which are not part of the
  checks. They are parameters of the model: for each call, the error it returns or its
  result. The state that \<^verbatim>\<open>Run\<close> changes is the working tree, represented by the
  revision it is checked out at. A successful checkout moves the tree to the requested
  revision. The manifests parsed from the directory depend on the revision the tree
  is at.

  Two simplifications concern inputs that no theorem below relies on. A failed
  checkout is taken to leave the tree where it was, whereas go-git fails either
  before it moves HEAD or after it (when the reset of the files fails), so the state
  after a failed checkout is not determined by the model. And go-git reads the
  all-zero hash as a request for the branch master, whereas the model takes every
  hash as the revision that is reached.
\<close>

record 'm Collaborators =
  PlainOpen :: "string \<Rightarrow> string option"
  Worktree :: "string option"
  Checkout :: "Hash \<Rightarrow> string option"
  ParseThinManifestsFromDir :: "string \<Rightarrow> Hash \<Rightarrow> string + 'm"
  ToPromotionEdges :: "'m \<Rightarrow> string + PromotionEdge list"

datatype run_error =
  CouldNotOpen string  \<comment> \<open>"Could not open the Git repo: %v"\<close>
| CouldNotCreateWorktree string  \<comment> \<open>"Could not create Git worktree: %v"\<close>
| CouldNotCheckoutMaster string
    \<comment> \<open>"Could not checkout the master branch of the Git repo: %v"\<close>
| CouldNotParseManifests string
    \<comment> \<open>"Could not parse manifests from the directory: %v"\<close>
| CouldNotGenerateEdges string
    \<comment> \<open>"Could not generate promotion edges from promoter manifests: %v"\<close>
| CouldNotCheckoutPullRequest string string
    \<comment> \<open>"Could not checkout the pull request branch of the Git repo %v: %v"\<close>
| ImagesRemoved string  \<comment> \<open>the error of \<^verbatim>\<open>Compare\<close>, with its text\<close>

definition checkout :: "'m Collaborators \<Rightarrow> Hash \<Rightarrow> Hash \<Rightarrow> string option \<times> Hash" where
  "checkout env hash tree =
     (case Checkout env hash of None \<Rightarrow> (None, hash) | Some err \<Rightarrow> (Some err, tree))"

definition ImageRemovalCheck_Run ::
  "'m Collaborators \<Rightarrow> ImageRemovalCheck \<Rightarrow> Hash \<Rightarrow> run_error option \<times> Hash" where
  "ImageRemovalCheck_Run env check tree =
     (case PlainOpen env (GitRepoPath check) of
        Some err \<Rightarrow> (Some (CouldNotOpen err), tree)
      | None \<Rightarrow>
     (case Worktree env of
        Some err \<Rightarrow> (Some (CouldNotCreateWorktree err), tree)
      | None \<Rightarrow>
     (case checkout env (MasterSHA check) tree of
        (Some err, tree1) \<Rightarrow> (Some (CouldNotCheckoutMaster err), tree1)
      | (None, tree1) \<Rightarrow>
     (case ParseThinManifestsFromDir env (GitRepoPath check) tree1 of
        Inl err \<Rightarrow> (Some (CouldNotParseManifests err), tree1)
      | Inr mfests \<Rightarrow>
     (case ToPromotionEdges env mfests of
        Inl err \<Rightarrow> (Some (CouldNotGenerateEdges err), tree1)
      | Inr masterEdges \<Rightarrow>
     (case checkout env (PullRequestSHA check) tree1 of
        (Some err, tree2) \<Rightarrow>
          (Some (CouldNotCheckoutPullRequest (GitRepoPath check) err), tree2)
      | (None, tree2) \<Rightarrow>
          (map_option ImagesRemoved
             (Compare masterEdges (ImageRemovalCheck.PullEdges check)), tree2)))))))"

subsection \<open>The image size check\<close>

text \<open>Indexing a Go map with a key it does not hold gives the zero value.\<close>

definition lookupSize :: "DigestImageSize \<Rightarrow> string \<Rightarrow> goint" where
  "lookupSize m digest = (case m digest of None \<Rightarrow> 0 | Some v \<Rightarrow> v)"

text \<open>One iteration of the loop of \<^verbatim>\<open>Run\<close> over the pull request's edges; the state
  is the pair of \<^verbatim>\<open>oversizedImages\<close> and \<^verbatim>\<open>invalidImages\<close>.\<close>

definition sizeStep ::
  "goint \<Rightarrow> DigestImageSize \<Rightarrow> PromotionEdge \<Rightarrow>
   (string \<times> goint) list \<times> (string \<times> goint) list \<Rightarrow>
   (string \<times> goint) list \<times> (string \<times> goint) list" where
  "sizeStep maxImageSizeByte sizes edge maps =
     (let imageSize = lookupSize sizes (Digest edge);
          imageName = ImageName (DstImageTag edge);
          oversizedImages =
            (if sint imageSize > sint maxImageSizeByte
             then AList.update imageName imageSize (fst maps) else fst maps);
          invalidImages =
            (if sint imageSize \<le> 0
             then AList.update imageName imageSize (snd maps) else snd maps)
      in (oversizedImages, invalidImages))"

definition ImageSizeCheck_Run :: "ImageSizeCheck \<Rightarrow> ImageSizeError option" where
  "ImageSizeCheck_Run check =
     (let maxImageSizeByte = MBToBytes (ImageSizeCheck.MaxImageSize check);
          maps = fold (sizeStep maxImageSizeByte (DigestImageSize check))
                      (ImageSizeCheck.PullEdges check) ([], [])
      in if length (fst maps) > 0 \<or> length (snd maps) > 0
         then Some \<lparr>ImageSizeError.MaxImageSize = ImageSizeCheck.MaxImageSize check,
                    OversizedImages = fst maps, InvalidImages = snd maps\<rparr>
         else None)"

text \<open>\<^verbatim>\<open>MKRealImageSizeCheck\<close>.\<close>

definition MKRealImageSizeCheck ::
  "goint \<Rightarrow> PromotionEdge list \<Rightarrow> DigestImageSize \<Rightarrow> ImageSizeCheck" where
  "MKRealImageSizeCheck maxImageSize edges digestImageSize =
     \<lparr>ImageSizeCheck.MaxImageSize = maxImageSize, DigestImageSize = digestImageSize,
      ImageSizeCheck.PullEdges = edges\<rparr>"

text \<open>The classification of an edge in the words of the specification: oversized
  when its looked-up size strictly exceeds the ceiling in MiB shifted left by 20 bits,
  invalid when its looked-up size is at most 0.\<close>

definition oversizedEdge :: "ImageSizeCheck \<Rightarrow> PromotionEdge \<Rightarrow> bool" where
  "oversizedEdge check edge \<longleftrightarrow>
     sint (push_bit 20 (ImageSizeCheck.MaxImageSize check) :: goint)
       < sint (lookupSize (DigestImageSize check) (Digest edge))"

definition invalidEdge :: "ImageSizeCheck \<Rightarrow> PromotionEdge \<Rightarrow> bool" where
  "invalidEdge check edge \<longleftrightarrow>
     sint (lookupSize (DigestImageSize check) (Digest edge)) \<le> 0"

subsection \<open>The text of an image size error\<close>

definition imageSizeLine :: "(string \<times> goint) list \<Rightarrow> string \<Rightarrow> string" where
  "imageSizeLine imageSizes imageName =
     imageName @ '' ('' @
     Sprint (sint (BytesToMB (case map_of imageSizes imageName of None \<Rightarrow> 0 | Some v \<Rightarrow> v)))
     @ '' MiB)''"

text \<open>The loop over the sorted names: a newline after every entry but the last.\<close>

fun joinLoop :: "(string \<times> goint) list \<Rightarrow> string list \<Rightarrow> string" where
  "joinLoop imageSizes [] = []"
| "joinLoop imageSizes [imageName] = imageSizeLine imageSizes imageName"
| "joinLoop imageSizes (imageName # rest) =
     imageSizeLine imageSizes imageName @ ''\<newline>'' @ joinLoop imageSizes rest"

definition joinImageSizesToString :: "(string \<times> goint) list \<Rightarrow> string" where
  "joinImageSizesToString imageSizes =
     joinLoop imageSizes (Strings (map fst imageSizes))"

definition Error :: "ImageSizeError \<Rightarrow> string" where
  "Error err =
     (let errStr = [];
          errStr =
            (if length (OversizedImages err) > 0
             then errStr @ ''The following images were over the max file size of ''
                  @ Sprint (sint (ImageSizeError.MaxImageSize err)) @ ''MiB:\<newline>''
                  @ joinImageSizesToString (OversizedImages err) @ ''\<newline>''
             else errStr);
          errStr =
            (if length (InvalidImages err) > 0
             then errStr @ ''The following images had an invalid file size of 0 bytes or less:\<newline>''
                  @ joinImageSizesToString (InvalidImages err) @ ''\<newline>''
             else errStr)
      in errStr)"

subsection \<open>The audit verifier\<close>

text \<open>Modelled from the spec: the audit verifier is not among the source files (only
  the expected log lines of its end-to-end test are). The specification matches an
  incoming event against the promotion-edge set by equality on
  \<open>(DstImageTag{Path, Tag}, Digest)\<close>; a matching edge gives VERIFIED with the note
  "agrees with manifest", extended by "(parent digest ...)" when the edge carries a
  parent digest; no matching edge gives REJECTED with the reason "could not validate".\<close>

datatype action = INSERT

record MutationEvent =
  Action :: action
  Path :: string
  EventDigest :: string
  EventTag :: string

datatype verdict = VERIFIED | REJECTED

definition matchesEvent :: "MutationEvent \<Rightarrow> PromotionEdge \<Rightarrow> bool" where
  "matchesEvent ev edge \<longleftrightarrow>
     ImageName (DstImageTag edge) = Path ev \<and> Tag (DstImageTag edge) = EventTag ev
     \<and> Digest edge = EventDigest ev"

definition agreement :: "PromotionEdge \<Rightarrow> string" where
  "agreement edge =
     (case ParentDigest edge of
        None \<Rightarrow> ''agrees with manifest''
      | Some parent \<Rightarrow> ''agrees with manifest (parent digest '' @ parent @ '')'')"

definition verify :: "PromotionEdge list \<Rightarrow> MutationEvent \<Rightarrow> verdict \<times> string" where
  "verify edges ev =
     (case find (matchesEvent ev) edges of
        Some edge \<Rightarrow> (VERIFIED, agreement edge)
      | None \<Rightarrow> (REJECTED, ''could not validate''))"

text \<open>Modelled from the spec: the line of the transaction log, in the format of the
  specification's section on external interfaces (PQIN is empty when the tag is).\<close>

definition transactionLine :: "PromotionEdge list \<Rightarrow> MutationEvent \<Rightarrow> string" where
  "transactionLine edges ev =
     ''TRANSACTION ''
     @ (case fst (verify edges ev) of VERIFIED \<Rightarrow> ''VERIFIED'' | REJECTED \<Rightarrow> ''REJECTED'')
     @ '': {Action: \"INSERT\", FQIN: \"'' @ Path ev @ ''@'' @ EventDigest ev
     @ ''\", PQIN: \"'' @ (if EventTag ev = [] then [] else Path ev @ '':'' @ EventTag ev)
     @ ''\", Path: \"'' @ Path ev @ ''\", Digest: \"'' @ EventDigest ev
     @ ''\", Tag: \"'' @ EventTag ev @ ''\"}: '' @ snd (verify edges ev)"

section \<open>Properties\<close>

subsection \<open>MiB and bytes\<close>

lemma sint_MBToBytes: "sint (MBToBytes x) = signed_take_bit 63 (sint x * 2 ^ 20)"
proof -
  have "MBToBytes x = word_of_int (sint x * 2 ^ 20)"
    by (simp add: MBToBytes_def push_bit_eq_mult)
  then show ?thesis
    by (simp only: sint_sbintrunc') simp
qed

lemma sint_BytesToMB_MBToBytes:
  "sint (BytesToMB (MBToBytes x)) = signed_take_bit 63 (sint x * 2 ^ 20) div 2 ^ 20"
  by (simp add: BytesToMB_def sint_signed_drop_bit_eq sint_MBToBytes drop_bit_eq_div)

text \<open>Whatever the argument, the round trip lands in the 44-bit signed range.\<close>

lemma sint_BytesToMB_MBToBytes_range:
  "- (2 ^ 43) \<le> sint (BytesToMB (MBToBytes x)) \<and> sint (BytesToMB (MBToBytes x)) < 2 ^ 43"
proof -
  let ?k = "signed_take_bit 63 (sint x * 2 ^ 20) :: int"
  have "- (2 ^ 63) \<le> ?k" "?k < 2 ^ 63"
    by (rule signed_take_bit_int_greater_eq_minus_exp, rule signed_take_bit_int_less_exp)
  then have "(- (2 ^ 63)) div 2 ^ 20 \<le> ?k div 2 ^ 20"
    and "?k div 2 ^ 20 \<le> (2 ^ 63 - 1) div 2 ^ 20"
    by (simp_all only: zdiv_mono1 zero_less_numeral zero_less_power zle_diff1_eq)
  then have "- (2 ^ 43) \<le> ?k div 2 ^ 20 \<and> ?k div 2 ^ 20 < 2 ^ 43"
    by simp
  then show ?thesis by (simp only: sint_BytesToMB_MBToBytes)
qed

lemma BytesToMB_MBToBytes_in_range:
  assumes "- (2 ^ 43) \<le> sint x" and "sint x < 2 ^ 43"
  shows "BytesToMB (MBToBytes x) = x"
proof -
  have "- (2 ^ 63) \<le> sint x * 2 ^ 20" and "sint x * 2 ^ 20 < 2 ^ 63"
    using assms by simp_all
  then have "signed_take_bit 63 (sint x * 2 ^ 20) = sint x * 2 ^ 20"
    by (simp add: signed_take_bit_int_eq_self)
  then have "sint (BytesToMB (MBToBytes x)) = sint x"
    by (simp add: sint_BytesToMB_MBToBytes)
  then show ?thesis by (rule signed_word_eqI)
qed

text \<open>Claim C5, as stated: for every non-negative \<open>x\<close>, converting \<open>x\<close> MiB to bytes
  and back gives \<open>x\<close>. It fails at \<open>x = 2 ^ 43\<close>: the left shift by 20 bits moves the
  set bit into the sign bit, and the arithmetic right shift brings back \<open>- (2 ^ 43)\<close>.\<close>

theorem BytesToMB_MBToBytes_counterexample:
  "0 \<le> sint (2 ^ 43 :: goint) \<and> BytesToMB (MBToBytes (2 ^ 43)) \<noteq> 2 ^ 43
   \<and> sint (BytesToMB (MBToBytes (2 ^ 43))) = - (2 ^ 43)"
  by (simp add: BytesToMB_def MBToBytes_def)

text \<open>Claim C5, amended: for a non-negative \<open>x\<close>, the round trip gives \<open>x\<close> back exactly
  when \<open>x\<close> is below \<open>2 ^ 43\<close>, that is when \<open>x\<close> MiB in bytes fits Go's 64-bit
  \<^verbatim>\<open>int\<close>.\<close>

theorem BytesToMB_MBToBytes_roundtrip:
  "0 \<le> sint x \<Longrightarrow> (BytesToMB (MBToBytes x) = x \<longleftrightarrow> sint x < 2 ^ 43)"
proof
  assume "BytesToMB (MBToBytes x) = x"
  then have "sint x = sint (BytesToMB (MBToBytes x))" by simp
  then show "sint x < 2 ^ 43"
    using sint_BytesToMB_MBToBytes_range [of x] by simp
next
  assume "0 \<le> sint x" and "sint x < 2 ^ 43"
  then show "BytesToMB (MBToBytes x) = x"
    by (intro BytesToMB_MBToBytes_in_range) simp_all
qed

theorem BytesToMB_MBToBytes_roundtrip_witness:
  "0 \<le> sint (1024 :: goint) \<and> BytesToMB (MBToBytes 1024) = (1024 :: goint)
   \<and> sint (1024 :: goint) < 2 ^ 43"
  using BytesToMB_MBToBytes_roundtrip [of 1024] by simp

subsection \<open>Comparison of two promotion-edge sets\<close>

lemma fold_insert_projection:
  "fold (\<lambda>edge m. insert (projection edge) m) es A = projection ` set es \<union> A"
  by (induction es arbitrary: A) auto

lemma destinationImages_set: "destinationImages es = projection ` set es"
  by (simp add: destinationImages_def fold_insert_projection)

lemma fold_removed:
  "fold (\<lambda>edge removed.
           if projection edge \<notin> dst then removed @ [ImageName (DstImageTag edge)]
           else removed) es acc
   = acc @ map (\<lambda>e. ImageName (DstImageTag e)) (filter (\<lambda>e. projection e \<notin> dst) es)"
  by (induction es arbitrary: acc) auto

lemma removedImages_filter:
  "removedImages dst es =
     map (\<lambda>e. ImageName (DstImageTag e)) (filter (\<lambda>e. projection e \<notin> dst) es)"
  by (simp add: removedImages_def fold_removed)

lemma set_removedImages:
  "set (removedImages dst es) =
     {ImageName (DstImageTag e) | e. e \<in> set es \<and> projection e \<notin> dst}"
  by (auto simp: removedImages_filter)

lemma removedImages_Nil_iff:
  "removedImages dst es = [] \<longleftrightarrow> projection ` set es \<subseteq> dst"
  by (auto simp: removedImages_filter filter_empty_conv)

lemma Compare_None_iff:
  "Compare base cand = None \<longleftrightarrow> projection ` set base \<subseteq> projection ` set cand"
  by (simp add: Compare_def Let_def removedImages_Nil_iff destinationImages_set)

lemma projection_eq_iff:
  "projection c = projection e \<longleftrightarrow> DstImageTag c = DstImageTag e \<and> Digest c = Digest e"
  by (simp add: projection_def)

lemma projection_mem_iff:
  "projection e \<in> projection ` set cand \<longleftrightarrow>
     (\<exists>c \<in> set cand. DstImageTag c = DstImageTag e \<and> Digest c = Digest e)"
proof -
  have "projection e \<in> projection ` set cand \<longleftrightarrow>
          (\<exists>c \<in> set cand. projection c = projection e)"
    by (metis image_iff)
  then show ?thesis by (simp only: projection_eq_iff)
qed

lemma Compare_None_fields:
  "Compare base cand = None \<longleftrightarrow>
     (\<forall>e \<in> set base. \<exists>c \<in> set cand. DstImageTag c = DstImageTag e \<and> Digest c = Digest e)"
  by (simp only: Compare_None_iff image_subset_iff projection_mem_iff)

lemma Compare_Some_fields:
  assumes "Compare base cand \<noteq> None"
  shows "\<exists>names. Compare base cand =
           Some (''The following images were removed in this pull request: ''
                 @ Join names '', '')
         \<and> set names = {ImageName (DstImageTag e) | e.
                           e \<in> set base \<and>
                           \<not> (\<exists>c \<in> set cand. DstImageTag c = DstImageTag e \<and> Digest c = Digest e)}"
proof -
  let ?removed = "removedImages (destinationImages cand) base"
  from assms have "?removed \<noteq> []"
    by (auto simp: Compare_def Let_def split: if_splits)
  then have "Compare base cand =
      Some (''The following images were removed in this pull request: ''
            @ Join ?removed '', '')"
    by (simp add: Compare_def Let_def)
  moreover have "set ?removed = {ImageName (DstImageTag e) | e.
                           e \<in> set base \<and>
                           \<not> (\<exists>c \<in> set cand. DstImageTag c = DstImageTag e \<and> Digest c = Digest e)}"
    by (simp only: set_removedImages destinationImages_set projection_mem_iff)
  ultimately show ?thesis by blast
qed

lemma ImageTag_eq_iff:
  "(t :: ImageTag) = u \<longleftrightarrow> ImageName t = ImageName u \<and> Tag t = Tag u"
  by (cases t, cases u) simp



text \<open>Claim C3, as stated: if every baseline edge has a candidate edge with the same
  destination image path and the same digest, possibly under another tag, no removal
  is reported. It fails: the projection keeps the whole \<open>DstImageTag\<close>, image name and
  tag, so a baseline edge tagged \<open>1.0\<close> is not found among candidate edges that carry
  the same path and digest under the tag \<open>2.0\<close>.\<close>

theorem Compare_tag_change_counterexample:
  "ImageName (DstImageTag \<lparr>DstImageTag = \<lparr>ImageName = ''gcr.io/prod/foo'', Tag = ''2.0''\<rparr>,
                           Digest = ''sha256:aa'', ParentDigest = None\<rparr>)
     = ImageName (DstImageTag \<lparr>DstImageTag = \<lparr>ImageName = ''gcr.io/prod/foo'', Tag = ''1.0''\<rparr>,
                               Digest = ''sha256:aa'', ParentDigest = None\<rparr>)
   \<and> Digest \<lparr>DstImageTag = \<lparr>ImageName = ''gcr.io/prod/foo'', Tag = ''2.0''\<rparr>,
              Digest = ''sha256:aa'', ParentDigest = None\<rparr>
     = Digest \<lparr>DstImageTag = \<lparr>ImageName = ''gcr.io/prod/foo'', Tag = ''1.0''\<rparr>,
                Digest = ''sha256:aa'', ParentDigest = None\<rparr>
   \<and> Compare
       [\<lparr>DstImageTag = \<lparr>ImageName = ''gcr.io/prod/foo'', Tag = ''1.0''\<rparr>,
         Digest = ''sha256:aa'', ParentDigest = None\<rparr>]
       [\<lparr>DstImageTag = \<lparr>ImageName = ''gcr.io/prod/foo'', Tag = ''2.0''\<rparr>,
         Digest = ''sha256:aa'', ParentDigest = None\<rparr>]
     = Some ''The following images were removed in this pull request: gcr.io/prod/foo''"
  by (simp add: Compare_def destinationImages_def removedImages_def projection_def)

text \<open>Claim C3, amended: \<open>Compare\<close> reports no removal exactly when every baseline
  edge has a candidate edge with the same destination image path, the same tag and
  the same digest, whatever the other fields of the two edges are; and a baseline
  edge whose path and digest persist in the candidate only under other tags is
  reported as removed, its image name being among the names of the error.\<close>

theorem Compare_same_path_tag_digest:
  "(Compare E_base E_cand = None \<longleftrightarrow>
      (\<forall>e \<in> set E_base. \<exists>c \<in> set E_cand.
         ImageName (DstImageTag c) = ImageName (DstImageTag e)
         \<and> Tag (DstImageTag c) = Tag (DstImageTag e)
         \<and> Digest c = Digest e))
   \<and> (\<forall>e \<in> set E_base.
        (\<forall>c \<in> set E_cand.
           ImageName (DstImageTag c) = ImageName (DstImageTag e) \<and> Digest c = Digest e \<longrightarrow>
           Tag (DstImageTag c) \<noteq> Tag (DstImageTag e)) \<longrightarrow>
        (\<exists>names. Compare E_base E_cand =
             Some (''The following images were removed in this pull request: ''
                   @ Join names '', '')
           \<and> ImageName (DstImageTag e) \<in> set names))"
proof (intro conjI ballI impI)
  show "Compare E_base E_cand = None \<longleftrightarrow>
      (\<forall>e \<in> set E_base. \<exists>c \<in> set E_cand.
         ImageName (DstImageTag c) = ImageName (DstImageTag e)
         \<and> Tag (DstImageTag c) = Tag (DstImageTag e)
         \<and> Digest c = Digest e)"
    by (simp only: Compare_None_fields ImageTag_eq_iff conj_assoc)
next
  fix e
  assume mem: "e \<in> set E_base"
    and tag: "\<forall>c \<in> set E_cand.
           ImageName (DstImageTag c) = ImageName (DstImageTag e) \<and> Digest c = Digest e \<longrightarrow>
           Tag (DstImageTag c) \<noteq> Tag (DstImageTag e)"
  have absent: "\<not> (\<exists>c \<in> set E_cand. DstImageTag c = DstImageTag e \<and> Digest c = Digest e)"
    using tag by (auto simp: ImageTag_eq_iff)
  with mem have "Compare E_base E_cand \<noteq> None"
    by (auto simp: Compare_None_fields)
  then obtain names where msg: "Compare E_base E_cand =
           Some (''The following images were removed in this pull request: ''
                 @ Join names '', '')"
    and names: "set names = {ImageName (DstImageTag e) | e.
                           e \<in> set E_base \<and>
                           \<not> (\<exists>c \<in> set E_cand.
                                 DstImageTag c = DstImageTag e \<and> Digest c = Digest e)}"
    using Compare_Some_fields by blast
  from mem absent have "ImageName (DstImageTag e) \<in> set names"
    unfolding names by blast
  with msg show "\<exists>names. Compare E_base E_cand =
             Some (''The following images were removed in this pull request: ''
                   @ Join names '', '')
           \<and> ImageName (DstImageTag e) \<in> set names"
    by blast
qed

text \<open>The theorem where the candidate edge differs from the baseline edge in the parent
  digest only (nothing is reported), and where it differs in the tag only (the image
  is reported).\<close>

theorem Compare_same_path_tag_digest_witness:
  "Compare
     [\<lparr>DstImageTag = \<lparr>ImageName = ''gcr.io/prod/foo'', Tag = ''1.0''\<rparr>,
       Digest = ''sha256:aa'', ParentDigest = Some ''sha256:ff''\<rparr>]
     [\<lparr>DstImageTag = \<lparr>ImageName = ''gcr.io/prod/foo'', Tag = ''1.0''\<rparr>,
       Digest = ''sha256:aa'', ParentDigest = None\<rparr>]
   = None
   \<and> (\<exists>names.
        Compare
          [\<lparr>DstImageTag = \<lparr>ImageName = ''gcr.io/prod/foo'', Tag = ''1.0''\<rparr>,
            Digest = ''sha256:aa'', ParentDigest = None\<rparr>]
          [\<lparr>DstImageTag = \<lparr>ImageName = ''gcr.io/prod/foo'', Tag = ''2.0''\<rparr>,
            Digest = ''sha256:aa'', ParentDigest = None\<rparr>]
        = Some (''The following images were removed in this pull request: ''
                @ Join names '', '')
        \<and> ''gcr.io/prod/foo'' \<in> set names)"
proof -
  let ?parent = "\<lparr>DstImageTag = \<lparr>ImageName = ''gcr.io/prod/foo'', Tag = ''1.0''\<rparr>,
                  Digest = ''sha256:aa'', ParentDigest = Some ''sha256:ff''\<rparr>"
  let ?one = "\<lparr>DstImageTag = \<lparr>ImageName = ''gcr.io/prod/foo'', Tag = ''1.0''\<rparr>,
               Digest = ''sha256:aa'', ParentDigest = None\<rparr>"
  let ?two = "\<lparr>DstImageTag = \<lparr>ImageName = ''gcr.io/prod/foo'', Tag = ''2.0''\<rparr>,
               Digest = ''sha256:aa'', ParentDigest = None\<rparr>"
  have kept: "Compare [?parent] [?one] = None"
    using Compare_same_path_tag_digest [of "[?parent]" "[?one]"] by simp
  have "\<forall>c \<in> set [?two].
           ImageName (DstImageTag c) = ImageName (DstImageTag ?one) \<and> Digest c = Digest ?one \<longrightarrow>
           Tag (DstImageTag c) \<noteq> Tag (DstImageTag ?one)"
    by simp
  with Compare_same_path_tag_digest [of "[?one]" "[?two]"]
  have "\<exists>names. Compare [?one] [?two] =
           Some (''The following images were removed in this pull request: ''
                 @ Join names '', '')
         \<and> ImageName (DstImageTag ?one) \<in> set names"
    by simp
  then have "\<exists>names. Compare [?one] [?two] =
           Some (''The following images were removed in this pull request: ''
                 @ Join names '', '')
         \<and> ''gcr.io/prod/foo'' \<in> set names"
    by simp
  with kept show ?thesis by blast
qed

text \<open>Claim C8: the error text of \<open>Compare\<close> is the same at every invocation on the
  same two edge sets, with the removed names in sorted order. The code appends the
  names in the order in which \<^verbatim>\<open>range\<close> visits the baseline map and does not sort
  them, unlike \<^verbatim>\<open>joinImageSizesToString\<close>, which calls \<^verbatim>\<open>sort.Strings\<close>. On the
  baseline set of two edges below and an empty candidate, the two enumerations of the
  baseline give two different texts, the second one unsorted.\<close>

theorem Compare_text_follows_iteration_order:
  "Compare
     [\<lparr>DstImageTag = \<lparr>ImageName = ''gcr.io/prod/a'', Tag = ''1.0''\<rparr>,
       Digest = ''sha256:aa'', ParentDigest = None\<rparr>,
      \<lparr>DstImageTag = \<lparr>ImageName = ''gcr.io/prod/b'', Tag = ''1.0''\<rparr>,
       Digest = ''sha256:bb'', ParentDigest = None\<rparr>] []
   = Some ''The following images were removed in this pull request: gcr.io/prod/a, gcr.io/prod/b''
   \<and> Compare
     [\<lparr>DstImageTag = \<lparr>ImageName = ''gcr.io/prod/b'', Tag = ''1.0''\<rparr>,
       Digest = ''sha256:bb'', ParentDigest = None\<rparr>,
      \<lparr>DstImageTag = \<lparr>ImageName = ''gcr.io/prod/a'', Tag = ''1.0''\<rparr>,
       Digest = ''sha256:aa'', ParentDigest = None\<rparr>] []
   = Some ''The following images were removed in this pull request: gcr.io/prod/b, gcr.io/prod/a''"
  by (simp add: Compare_def destinationImages_def removedImages_def projection_def)

subsection \<open>Running the image removal check\<close>

text \<open>When the baseline edge set is built and the second checkout succeeds, the tree is
  at the pull request's revision whatever the comparison returns.\<close>

lemma Run_tree_after_comparison:
  assumes "PlainOpen env (GitRepoPath check) = None" and "Worktree env = None"
    and "Checkout env (MasterSHA check) = None"
    and "ParseThinManifestsFromDir env (GitRepoPath check) (MasterSHA check) = Inr mfests"
    and "ToPromotionEdges env mfests = Inr masterEdges"
    and "Checkout env (PullRequestSHA check) = None"
  shows "ImageRemovalCheck_Run env check tree =
           (map_option ImagesRemoved
              (Compare masterEdges (ImageRemovalCheck.PullEdges check)),
            PullRequestSHA check)"
  using assms by (simp add: ImageRemovalCheck_Run_def checkout_def)

text \<open>A failure of the second checkout is reported by an error of its own.\<close>

lemma Run_restoration_failure:
  assumes "PlainOpen env (GitRepoPath check) = None" and "Worktree env = None"
    and "Checkout env (MasterSHA check) = None"
    and "ParseThinManifestsFromDir env (GitRepoPath check) (MasterSHA check) = Inr mfests"
    and "ToPromotionEdges env mfests = Inr masterEdges"
    and "Checkout env (PullRequestSHA check) = Some err"
  shows "fst (ImageRemovalCheck_Run env check tree) =
           Some (CouldNotCheckoutPullRequest (GitRepoPath check) err)"
  using assms by (simp add: ImageRemovalCheck_Run_def checkout_def)

text \<open>When the manifests of the master revision do not parse, \<^verbatim>\<open>Run\<close> returns before
  the second checkout.\<close>

lemma Run_parse_failure_leaves_master:
  assumes "PlainOpen env (GitRepoPath check) = None" and "Worktree env = None"
    and "Checkout env (MasterSHA check) = None"
    and "ParseThinManifestsFromDir env (GitRepoPath check) (MasterSHA check) = Inl err"
  shows "ImageRemovalCheck_Run env check tree =
           (Some (CouldNotParseManifests err), MasterSHA check)"
  using assms by (simp add: ImageRemovalCheck_Run_def checkout_def)

text \<open>Claim C4: \<^verbatim>\<open>Run\<close> leaves the working tree at the pull request's revision on
  every exit path, also where parsing the baseline manifests or building the baseline
  edge set fails. The code checks out the pull request's revision only after both
  steps have succeeded (its comment: "so that this check doesn't leave lasting effects
  that could affect subsequent checks"); the two early returns in between leave the
  tree at the master revision. Below, every checkout succeeds and the tree starts at
  the pull request's revision \<open>BB...\<close>; first the parser fails, then the edge builder,
  and each time the tree is left at the master revision \<open>AA...\<close>.\<close>

theorem Run_early_return_leaves_master_tree:
  "ImageRemovalCheck_Run
     \<lparr>PlainOpen = \<lambda>path. None, Worktree = None, Checkout = \<lambda>hash. None,
      ParseThinManifestsFromDir =
        \<lambda>path tree. (Inl ''yaml: unmarshal errors'' :: string + unit),
      ToPromotionEdges = \<lambda>mfests. Inr []\<rparr>
     \<lparr>GitRepoPath = ''/repo'', MasterSHA = replicate 20 0xAA,
      PullRequestSHA = replicate 20 0xBB, ImageRemovalCheck.PullEdges = []\<rparr>
     (replicate 20 0xBB)
   = (Some (CouldNotParseManifests ''yaml: unmarshal errors''), replicate 20 0xAA)
   \<and> ImageRemovalCheck_Run
     \<lparr>PlainOpen = \<lambda>path. None, Worktree = None, Checkout = \<lambda>hash. None,
      ParseThinManifestsFromDir = \<lambda>path tree. (Inr () :: string + unit),
      ToPromotionEdges = \<lambda>mfests. Inl ''no source registry''\<rparr>
     \<lparr>GitRepoPath = ''/repo'', MasterSHA = replicate 20 0xAA,
      PullRequestSHA = replicate 20 0xBB, ImageRemovalCheck.PullEdges = []\<rparr>
     (replicate 20 0xBB)
   = (Some (CouldNotGenerateEdges ''no source registry''), replicate 20 0xAA)
   \<and> replicate 20 (0xAA :: 8 word) \<noteq> replicate 20 0xBB"
  by (simp add: ImageRemovalCheck_Run_def checkout_def)

subsection \<open>The image size check\<close>

lemma fst_sizeStep:
  "fst (sizeStep maxB sizes e maps) =
     (if sint (lookupSize sizes (Digest e)) > sint maxB
      then AList.update (ImageName (DstImageTag e)) (lookupSize sizes (Digest e)) (fst maps)
      else fst maps)"
  by (simp add: sizeStep_def Let_def)

lemma snd_sizeStep:
  "snd (sizeStep maxB sizes e maps) =
     (if sint (lookupSize sizes (Digest e)) \<le> 0
      then AList.update (ImageName (DstImageTag e)) (lookupSize sizes (Digest e)) (snd maps)
      else snd maps)"
  by (simp add: sizeStep_def Let_def)

lemma keys_fold_fst:
  "fst ` set (fst (fold (sizeStep maxB sizes) es maps)) =
     fst ` set (fst maps) \<union>
     {ImageName (DstImageTag e) | e. e \<in> set es \<and> sint (lookupSize sizes (Digest e)) > sint maxB}"
proof (induction es arbitrary: maps)
  case Nil
  then show ?case by simp
next
  case (Cons e es)
  show ?case
    by (simp only: fold_simps Cons.IH fst_sizeStep) (auto simp: dom_update[unfolded dom_map_of_conv_image_fst])
qed

lemma keys_fold_snd:
  "fst ` set (snd (fold (sizeStep maxB sizes) es maps)) =
     fst ` set (snd maps) \<union>
     {ImageName (DstImageTag e) | e. e \<in> set es \<and> sint (lookupSize sizes (Digest e)) \<le> 0}"
proof (induction es arbitrary: maps)
  case Nil
  then show ?case by simp
next
  case (Cons e es)
  show ?case
    by (simp only: fold_simps Cons.IH snd_sizeStep) (auto simp: dom_update[unfolded dom_map_of_conv_image_fst])
qed

lemma distinct_fold_fst:
  "distinct (map fst (fst maps)) \<Longrightarrow> distinct (map fst (fst (fold (sizeStep maxB sizes) es maps)))"
  by (induction es arbitrary: maps) (simp_all add: fst_sizeStep distinct_update)

lemma distinct_fold_snd:
  "distinct (map fst (snd maps)) \<Longrightarrow> distinct (map fst (snd (fold (sizeStep maxB sizes) es maps)))"
  by (induction es arbitrary: maps) (simp_all add: snd_sizeStep distinct_update)

lemma AList_update_values:
  "\<forall>p \<in> set al. P (snd p) \<Longrightarrow> P v \<Longrightarrow> \<forall>p \<in> set (AList.update k v al). P (snd p)"
  by (induction al) auto

lemma values_fold_fst:
  "\<forall>p \<in> set (fst maps). sint maxB < sint (snd p) \<Longrightarrow>
   \<forall>p \<in> set (fst (fold (sizeStep maxB sizes) es maps)). sint maxB < sint (snd p)"
proof (induction es arbitrary: maps)
  case Nil
  then show ?case by simp
next
  case (Cons e es)
  have "\<forall>p \<in> set (fst (sizeStep maxB sizes e maps)). sint maxB < sint (snd p)"
    using Cons.prems AList_update_values [where P = "\<lambda>s. sint maxB < sint s" and al = "fst maps"]
    by (simp add: fst_sizeStep)
  then show ?case by (simp add: Cons.IH)
qed

lemma values_fold_snd:
  "\<forall>p \<in> set (snd maps). sint (snd p) \<le> 0 \<Longrightarrow>
   \<forall>p \<in> set (snd (fold (sizeStep maxB sizes) es maps)). sint (snd p) \<le> 0"
proof (induction es arbitrary: maps)
  case Nil
  then show ?case by simp
next
  case (Cons e es)
  have "\<forall>p \<in> set (snd (sizeStep maxB sizes e maps)). sint (snd p) \<le> 0"
    using Cons.prems AList_update_values [where P = "\<lambda>s. sint s \<le> 0" and al = "snd maps"]
    by (simp add: snd_sizeStep)
  then show ?case by (simp add: Cons.IH)
qed

lemma ImageSizeCheck_Run_None_iff:
  "ImageSizeCheck_Run check = None \<longleftrightarrow>
     (\<forall>e \<in> set (ImageSizeCheck.PullEdges check). \<not> oversizedEdge check e \<and> \<not> invalidEdge check e)"
proof -
  let ?maps = "fold (sizeStep (MBToBytes (ImageSizeCheck.MaxImageSize check)) (DigestImageSize check))
                      (ImageSizeCheck.PullEdges check) ([], [])"
  have "ImageSizeCheck_Run check = None \<longleftrightarrow> fst ?maps = [] \<and> snd ?maps = []"
    by (simp add: ImageSizeCheck_Run_def Let_def)
  also have "\<dots> \<longleftrightarrow> fst ` set (fst ?maps) = {} \<and> fst ` set (snd ?maps) = {}"
    by simp
  also have "\<dots> \<longleftrightarrow> (\<forall>e \<in> set (ImageSizeCheck.PullEdges check). \<not> oversizedEdge check e \<and> \<not> invalidEdge check e)"
    by (simp only: keys_fold_fst keys_fold_snd) (auto simp: oversizedEdge_def invalidEdge_def MBToBytes_def)
  finally show ?thesis .
qed

lemma ImageSizeCheck_Run_Some:
  assumes "ImageSizeCheck_Run check = Some err"
  shows "fst ` set (OversizedImages err) =
           {ImageName (DstImageTag e) | e. e \<in> set (ImageSizeCheck.PullEdges check) \<and> oversizedEdge check e}"
    and "fst ` set (InvalidImages err) =
           {ImageName (DstImageTag e) | e. e \<in> set (ImageSizeCheck.PullEdges check) \<and> invalidEdge check e}"
    and "ImageSizeError.MaxImageSize err = ImageSizeCheck.MaxImageSize check"
    and "distinct (map fst (OversizedImages err))" and "distinct (map fst (InvalidImages err))"
    and "\<forall>p \<in> set (InvalidImages err). sint (snd p) \<le> 0"
proof -
  let ?maps = "fold (sizeStep (MBToBytes (ImageSizeCheck.MaxImageSize check)) (DigestImageSize check))
                      (ImageSizeCheck.PullEdges check) ([], [])"
  from assms have err: "err = \<lparr>ImageSizeError.MaxImageSize = ImageSizeCheck.MaxImageSize check,
                    OversizedImages = fst ?maps, InvalidImages = snd ?maps\<rparr>"
    by (simp add: ImageSizeCheck_Run_def Let_def split: if_splits)
  show "fst ` set (OversizedImages err) =
           {ImageName (DstImageTag e) | e. e \<in> set (ImageSizeCheck.PullEdges check) \<and> oversizedEdge check e}"
    by (simp add: err keys_fold_fst oversizedEdge_def MBToBytes_def)
  show "fst ` set (InvalidImages err) =
           {ImageName (DstImageTag e) | e. e \<in> set (ImageSizeCheck.PullEdges check) \<and> invalidEdge check e}"
    by (simp add: err keys_fold_snd invalidEdge_def)
  show "ImageSizeError.MaxImageSize err = ImageSizeCheck.MaxImageSize check"
    by (simp add: err)
  show "distinct (map fst (OversizedImages err))"
    by (simp add: err distinct_fold_fst)
  show "distinct (map fst (InvalidImages err))"
    by (simp add: err distinct_fold_snd)
  show "\<forall>p \<in> set (InvalidImages err). sint (snd p) \<le> 0"
    unfolding err ImageSizeError.simps by (rule values_fold_snd) simp
qed



text \<open>Claim C2: \<^verbatim>\<open>Run\<close> with a ceiling of \<open>M\<close> MiB classifies an edge as oversized
  exactly when its looked-up size strictly exceeds \<open>M\<close> shifted left by 20 bits, and as
  invalid exactly when its size is at most 0; it returns nil exactly when no edge is
  oversized or invalid, and otherwise the keys of the two maps of its error are the
  names of the oversized and of the invalid edges. With a ceiling of 1 MiB
  (1,048,576 bytes), of five edges with the sizes 1,048,577, 1,048,576, 0, -5 and 500
  the first is reported oversized, the third and fourth invalid, the second and fifth
  not at all.\<close>

theorem ImageSizeCheck_Run_classification:
  "(ImageSizeCheck_Run check = None \<longleftrightarrow>
      (\<forall>e \<in> set (ImageSizeCheck.PullEdges check).
         \<not> oversizedEdge check e \<and> \<not> invalidEdge check e))
   \<and> (\<forall>err. ImageSizeCheck_Run check = Some err \<longrightarrow>
         fst ` set (OversizedImages err) =
           {ImageName (DstImageTag e) | e.
              e \<in> set (ImageSizeCheck.PullEdges check) \<and> oversizedEdge check e}
         \<and> fst ` set (InvalidImages err) =
           {ImageName (DstImageTag e) | e.
              e \<in> set (ImageSizeCheck.PullEdges check) \<and> invalidEdge check e})
   \<and> MBToBytes 1 = 1048576
   \<and> ImageSizeCheck_Run
       (MKRealImageSizeCheck 1
        [\<lparr>DstImageTag = \<lparr>ImageName = ''gcr.io/prod/a'', Tag = ''1.0''\<rparr>,
          Digest = ''sha256:aa'', ParentDigest = None\<rparr>,
         \<lparr>DstImageTag = \<lparr>ImageName = ''gcr.io/prod/b'', Tag = ''1.0''\<rparr>,
          Digest = ''sha256:bb'', ParentDigest = None\<rparr>,
         \<lparr>DstImageTag = \<lparr>ImageName = ''gcr.io/prod/c'', Tag = ''1.0''\<rparr>,
          Digest = ''sha256:cc'', ParentDigest = None\<rparr>,
         \<lparr>DstImageTag = \<lparr>ImageName = ''gcr.io/prod/d'', Tag = ''1.0''\<rparr>,
          Digest = ''sha256:dd'', ParentDigest = None\<rparr>,
         \<lparr>DstImageTag = \<lparr>ImageName = ''gcr.io/prod/e'', Tag = ''1.0''\<rparr>,
          Digest = ''sha256:ee'', ParentDigest = None\<rparr>]
        [''sha256:aa'' \<mapsto> 1048577, ''sha256:bb'' \<mapsto> 1048576,
         ''sha256:cc'' \<mapsto> 0, ''sha256:dd'' \<mapsto> - 5, ''sha256:ee'' \<mapsto> 500])
     = Some \<lparr>ImageSizeError.MaxImageSize = 1,
             OversizedImages = [(''gcr.io/prod/a'', 1048577)],
             InvalidImages = [(''gcr.io/prod/c'', 0), (''gcr.io/prod/d'', - 5)]\<rparr>"
proof (intro conjI allI impI)
  show "ImageSizeCheck_Run check = None \<longleftrightarrow>
      (\<forall>e \<in> set (ImageSizeCheck.PullEdges check).
         \<not> oversizedEdge check e \<and> \<not> invalidEdge check e)"
    by (rule ImageSizeCheck_Run_None_iff)
next
  fix err
  assume "ImageSizeCheck_Run check = Some err"
  then show "fst ` set (OversizedImages err) =
           {ImageName (DstImageTag e) | e.
              e \<in> set (ImageSizeCheck.PullEdges check) \<and> oversizedEdge check e}"
    by (rule ImageSizeCheck_Run_Some)
next
  fix err
  assume "ImageSizeCheck_Run check = Some err"
  then show "fst ` set (InvalidImages err) =
           {ImageName (DstImageTag e) | e.
              e \<in> set (ImageSizeCheck.PullEdges check) \<and> invalidEdge check e}"
    by (rule ImageSizeCheck_Run_Some)
next
  show "MBToBytes 1 = 1048576"
    by (simp add: MBToBytes_def)
next
  show "ImageSizeCheck_Run
       (MKRealImageSizeCheck 1
        [\<lparr>DstImageTag = \<lparr>ImageName = ''gcr.io/prod/a'', Tag = ''1.0''\<rparr>,
          Digest = ''sha256:aa'', ParentDigest = None\<rparr>,
         \<lparr>DstImageTag = \<lparr>ImageName = ''gcr.io/prod/b'', Tag = ''1.0''\<rparr>,
          Digest = ''sha256:bb'', ParentDigest = None\<rparr>,
         \<lparr>DstImageTag = \<lparr>ImageName = ''gcr.io/prod/c'', Tag = ''1.0''\<rparr>,
          Digest = ''sha256:cc'', ParentDigest = None\<rparr>,
         \<lparr>DstImageTag = \<lparr>ImageName = ''gcr.io/prod/d'', Tag = ''1.0''\<rparr>,
          Digest = ''sha256:dd'', ParentDigest = None\<rparr>,
         \<lparr>DstImageTag = \<lparr>ImageName = ''gcr.io/prod/e'', Tag = ''1.0''\<rparr>,
          Digest = ''sha256:ee'', ParentDigest = None\<rparr>]
        [''sha256:aa'' \<mapsto> 1048577, ''sha256:bb'' \<mapsto> 1048576,
         ''sha256:cc'' \<mapsto> 0, ''sha256:dd'' \<mapsto> - 5, ''sha256:ee'' \<mapsto> 500])
     = Some \<lparr>ImageSizeError.MaxImageSize = 1,
             OversizedImages = [(''gcr.io/prod/a'', 1048577)],
             InvalidImages = [(''gcr.io/prod/c'', 0), (''gcr.io/prod/d'', - 5)]\<rparr>"
    by (simp add: ImageSizeCheck_Run_def MKRealImageSizeCheck_def sizeStep_def
          lookupSize_def MBToBytes_def)
qed

text \<open>The theorem at a check of one edge whose size is one byte over the ceiling of
  1 MiB.\<close>

theorem ImageSizeCheck_Run_classification_witness:
  "ImageSizeCheck_Run
       \<lparr>ImageSizeCheck.MaxImageSize = 1, DigestImageSize = [''sha256:aa'' \<mapsto> 1048577],
        ImageSizeCheck.PullEdges =
          [\<lparr>DstImageTag = \<lparr>ImageName = ''gcr.io/prod/a'', Tag = ''1.0''\<rparr>,
          Digest = ''sha256:aa'', ParentDigest = None\<rparr>]\<rparr>
   = Some \<lparr>ImageSizeError.MaxImageSize = 1,
           OversizedImages = [(''gcr.io/prod/a'', 1048577)], InvalidImages = []\<rparr>
   \<and> \<not> (\<forall>e \<in> set (ImageSizeCheck.PullEdges
       \<lparr>ImageSizeCheck.MaxImageSize = 1, DigestImageSize = [''sha256:aa'' \<mapsto> 1048577],
        ImageSizeCheck.PullEdges =
          [\<lparr>DstImageTag = \<lparr>ImageName = ''gcr.io/prod/a'', Tag = ''1.0''\<rparr>,
          Digest = ''sha256:aa'', ParentDigest = None\<rparr>]\<rparr>).
         \<not> oversizedEdge
       \<lparr>ImageSizeCheck.MaxImageSize = 1, DigestImageSize = [''sha256:aa'' \<mapsto> 1048577],
        ImageSizeCheck.PullEdges =
          [\<lparr>DstImageTag = \<lparr>ImageName = ''gcr.io/prod/a'', Tag = ''1.0''\<rparr>,
          Digest = ''sha256:aa'', ParentDigest = None\<rparr>]\<rparr> e
         \<and> \<not> invalidEdge
       \<lparr>ImageSizeCheck.MaxImageSize = 1, DigestImageSize = [''sha256:aa'' \<mapsto> 1048577],
        ImageSizeCheck.PullEdges =
          [\<lparr>DstImageTag = \<lparr>ImageName = ''gcr.io/prod/a'', Tag = ''1.0''\<rparr>,
          Digest = ''sha256:aa'', ParentDigest = None\<rparr>]\<rparr> e)"
proof -
  let ?check = "\<lparr>ImageSizeCheck.MaxImageSize = 1, DigestImageSize = [''sha256:aa'' \<mapsto> 1048577],
        ImageSizeCheck.PullEdges =
          [\<lparr>DstImageTag = \<lparr>ImageName = ''gcr.io/prod/a'', Tag = ''1.0''\<rparr>,
          Digest = ''sha256:aa'', ParentDigest = None\<rparr>]\<rparr>"
  have run: "ImageSizeCheck_Run ?check
    = Some \<lparr>ImageSizeError.MaxImageSize = 1,
           OversizedImages = [(''gcr.io/prod/a'', 1048577)], InvalidImages = []\<rparr>"
    by (simp add: ImageSizeCheck_Run_def sizeStep_def lookupSize_def MBToBytes_def)
  then have "ImageSizeCheck_Run ?check \<noteq> None" by simp
  with ImageSizeCheck_Run_classification [of ?check]
  have "\<not> (\<forall>e \<in> set (ImageSizeCheck.PullEdges ?check).
         \<not> oversizedEdge ?check e \<and> \<not> invalidEdge ?check e)"
    by blast
  with run show ?thesis by blast
qed

lemma lookupSize_missing: "sizes d = None \<Longrightarrow> lookupSize (sizes(d \<mapsto> 0)) = lookupSize sizes"
  by (rule ext) (simp add: lookupSize_def)

lemma sizeStep_lookup:
  "lookupSize sizes' = lookupSize sizes \<Longrightarrow> sizeStep maxB sizes' = sizeStep maxB sizes"
  by (intro ext) (simp add: sizeStep_def)

text \<open>Claim C10: an edge whose digest has no entry in the lookup is sized 0, so its
  image name is among the invalid images and \<^verbatim>\<open>Run\<close> fails; the result is the same
  as with an entry that records the size 0 for that digest.\<close>

theorem Run_missing_digest:
  assumes "e \<in> set (ImageSizeCheck.PullEdges check)"
    and "DigestImageSize check (Digest e) = None"
  shows "lookupSize (DigestImageSize check) (Digest e) = 0
    \<and> (\<exists>err. ImageSizeCheck_Run check = Some err
           \<and> ImageName (DstImageTag e) \<in> fst ` set (InvalidImages err))
    \<and> ImageSizeCheck_Run (check\<lparr>DigestImageSize := (DigestImageSize check)(Digest e \<mapsto> 0)\<rparr>)
        = ImageSizeCheck_Run check"
proof (intro conjI)
  show zero: "lookupSize (DigestImageSize check) (Digest e) = 0"
    using assms(2) by (simp add: lookupSize_def)
  then have inv: "invalidEdge check e" by (simp add: invalidEdge_def)
  with assms(1) have "ImageSizeCheck_Run check \<noteq> None"
    by (auto simp: ImageSizeCheck_Run_None_iff)
  then obtain err where err: "ImageSizeCheck_Run check = Some err" by blast
  then have "fst ` set (InvalidImages err) =
           {ImageName (DstImageTag e) | e. e \<in> set (ImageSizeCheck.PullEdges check) \<and> invalidEdge check e}"
    by (rule ImageSizeCheck_Run_Some)
  with assms(1) inv have "ImageName (DstImageTag e) \<in> fst ` set (InvalidImages err)"
    by blast
  with err show "\<exists>err. ImageSizeCheck_Run check = Some err
           \<and> ImageName (DstImageTag e) \<in> fst ` set (InvalidImages err)"
    by blast
  show "ImageSizeCheck_Run (check\<lparr>DigestImageSize := (DigestImageSize check)(Digest e \<mapsto> 0)\<rparr>)
        = ImageSizeCheck_Run check"
    using assms(2)
    by (simp add: ImageSizeCheck_Run_def Let_def sizeStep_lookup [OF lookupSize_missing])
qed

text \<open>The theorem at a check of one edge and an empty lookup.\<close>

theorem Run_missing_digest_witness:
  "(\<exists>err. ImageSizeCheck_Run
       \<lparr>ImageSizeCheck.MaxImageSize = 1, DigestImageSize = Map.empty,
        ImageSizeCheck.PullEdges =
          [\<lparr>DstImageTag = \<lparr>ImageName = ''gcr.io/prod/foo'', Tag = ''1.0''\<rparr>,
            Digest = ''sha256:aa'', ParentDigest = None\<rparr>]\<rparr> = Some err
       \<and> ''gcr.io/prod/foo'' \<in> fst ` set (InvalidImages err))
   \<and> ImageSizeCheck_Run
       \<lparr>ImageSizeCheck.MaxImageSize = 1, DigestImageSize = [''sha256:aa'' \<mapsto> 0],
        ImageSizeCheck.PullEdges =
          [\<lparr>DstImageTag = \<lparr>ImageName = ''gcr.io/prod/foo'', Tag = ''1.0''\<rparr>,
            Digest = ''sha256:aa'', ParentDigest = None\<rparr>]\<rparr>
     = ImageSizeCheck_Run
       \<lparr>ImageSizeCheck.MaxImageSize = 1, DigestImageSize = Map.empty,
        ImageSizeCheck.PullEdges =
          [\<lparr>DstImageTag = \<lparr>ImageName = ''gcr.io/prod/foo'', Tag = ''1.0''\<rparr>,
            Digest = ''sha256:aa'', ParentDigest = None\<rparr>]\<rparr>"
  using Run_missing_digest
    [of "\<lparr>DstImageTag = \<lparr>ImageName = ''gcr.io/prod/foo'', Tag = ''1.0''\<rparr>,
            Digest = ''sha256:aa'', ParentDigest = None\<rparr>"
        "\<lparr>ImageSizeCheck.MaxImageSize = 1, DigestImageSize = Map.empty,
        ImageSizeCheck.PullEdges =
          [\<lparr>DstImageTag = \<lparr>ImageName = ''gcr.io/prod/foo'', Tag = ''1.0''\<rparr>,
            Digest = ''sha256:aa'', ParentDigest = None\<rparr>]\<rparr>"]
  by simp

subsection \<open>The text of an image size error\<close>

lemma joinLoop_Join:
  "joinLoop imageSizes names = Join (map (imageSizeLine imageSizes) names) ''\<newline>''"
  by (induction imageSizes names rule: joinLoop.induct) simp_all

lemma imageSizeLine_key:
  "name \<in> fst ` set imageSizes \<Longrightarrow>
   imageSizeLine imageSizes name =
     name @ '' ('' @ Sprint (sint (BytesToMB (the (map_of imageSizes name)))) @ '' MiB)''"
  by (auto simp: imageSizeLine_def map_of_eq_None_iff split: option.splits)

lemma joinImageSizesToString_Join:
  "joinImageSizesToString imageSizes =
     Join (map (\<lambda>name. name @ '' ('' @
                  Sprint (sint (BytesToMB (the (map_of imageSizes name)))) @ '' MiB)'')
               (sort (map fst imageSizes))) ''\<newline>''"
proof -
  have "map (imageSizeLine imageSizes) (sort (map fst imageSizes)) =
        map (\<lambda>name. name @ '' ('' @
                  Sprint (sint (BytesToMB (the (map_of imageSizes name)))) @ '' MiB)'')
            (sort (map fst imageSizes))"
    by (rule map_cong [OF refl]) (auto simp: imageSizeLine_key)
  then show ?thesis
    unfolding joinImageSizesToString_def Strings_def joinLoop_Join by (rule arg_cong)
qed

text \<open>Claim C7, as stated: the error text lists the oversized images with their size
  in MiB and the invalid images each with its raw recorded size. It fails for the
  invalid images: both lists go through \<^verbatim>\<open>joinImageSizesToString\<close>, which prints
  \<^verbatim>\<open>BytesToMB\<close> of the size. An image recorded with -5 bytes is printed with
  \<open>-1 MiB\<close>, and its raw size -5 occurs nowhere in the text.\<close>

theorem Error_raw_size_counterexample:
  "ImageSizeCheck_Run
     \<lparr>ImageSizeCheck.MaxImageSize = 1, DigestImageSize = [''sha256:dd'' \<mapsto> - 5],
      ImageSizeCheck.PullEdges =
        [\<lparr>DstImageTag = \<lparr>ImageName = ''gcr.io/prod/foo'', Tag = ''1.0''\<rparr>,
          Digest = ''sha256:dd'', ParentDigest = None\<rparr>]\<rparr>
   = Some \<lparr>ImageSizeError.MaxImageSize = 1, OversizedImages = [],
           InvalidImages = [(''gcr.io/prod/foo'', - 5)]\<rparr>
   \<and> Error \<lparr>ImageSizeError.MaxImageSize = 1, OversizedImages = [],
             InvalidImages = [(''gcr.io/prod/foo'', - 5)]\<rparr>
     = ''The following images had an invalid file size of 0 bytes or less:\<newline>gcr.io/prod/foo (-1 MiB)\<newline>''
   \<and> Sprint (sint (- 5 :: goint)) = ''-5''
   \<and> \<not> sublist ''-5'' (Error \<lparr>ImageSizeError.MaxImageSize = 1, OversizedImages = [],
             InvalidImages = [(''gcr.io/prod/foo'', - 5)]\<rparr>)"
proof (intro conjI)
  show "ImageSizeCheck_Run
     \<lparr>ImageSizeCheck.MaxImageSize = 1, DigestImageSize = [''sha256:dd'' \<mapsto> - 5],
      ImageSizeCheck.PullEdges =
        [\<lparr>DstImageTag = \<lparr>ImageName = ''gcr.io/prod/foo'', Tag = ''1.0''\<rparr>,
          Digest = ''sha256:dd'', ParentDigest = None\<rparr>]\<rparr>
   = Some \<lparr>ImageSizeError.MaxImageSize = 1, OversizedImages = [],
           InvalidImages = [(''gcr.io/prod/foo'', - 5)]\<rparr>"
    by (simp add: ImageSizeCheck_Run_def sizeStep_def lookupSize_def MBToBytes_def)
  show "Error \<lparr>ImageSizeError.MaxImageSize = 1, OversizedImages = [],
             InvalidImages = [(''gcr.io/prod/foo'', - 5)]\<rparr>
     = ''The following images had an invalid file size of 0 bytes or less:\<newline>gcr.io/prod/foo (-1 MiB)\<newline>''"
    by code_simp
  show "Sprint (sint (- 5 :: goint)) = ''-5''"
    by code_simp
  show "\<not> sublist ''-5'' (Error \<lparr>ImageSizeError.MaxImageSize = 1, OversizedImages = [],
             InvalidImages = [(''gcr.io/prod/foo'', - 5)]\<rparr>)"
    by code_simp
qed


text \<open>Claim C7, amended: when \<^verbatim>\<open>Run\<close> fails, the text of its error is the block of
  the oversized images (present when there is one: a heading that states the
  configured ceiling in MiB, then the lines) followed by the block of the invalid
  images (present when there is one: a heading, then the lines). In both blocks a
  line is the image name followed by the recorded size shifted right by 20 bits, in
  the form \<open>name (N MiB)\<close>; the lines are in the sorted order of the names, joined by
  newlines and followed by one; no name occurs twice in a block.\<close>

theorem Error_text:
  assumes "ImageSizeCheck_Run check = Some err"
  shows "Error err =
     (if OversizedImages err = [] then []
      else ''The following images were over the max file size of ''
           @ Sprint (sint (ImageSizeCheck.MaxImageSize check)) @ ''MiB:\<newline>''
           @ Join (map (\<lambda>name. name @ '' ('' @
                          Sprint (sint (BytesToMB (the (map_of (OversizedImages err) name))))
                          @ '' MiB)'')
                       (sort (map fst (OversizedImages err)))) ''\<newline>''
           @ ''\<newline>'')
     @ (if InvalidImages err = [] then []
        else ''The following images had an invalid file size of 0 bytes or less:\<newline>''
           @ Join (map (\<lambda>name. name @ '' ('' @
                          Sprint (sint (BytesToMB (the (map_of (InvalidImages err) name))))
                          @ '' MiB)'')
                       (sort (map fst (InvalidImages err)))) ''\<newline>''
           @ ''\<newline>'')
     \<and> distinct (map fst (OversizedImages err)) \<and> distinct (map fst (InvalidImages err))"
proof -
  have "ImageSizeError.MaxImageSize err = ImageSizeCheck.MaxImageSize check"
    using assms by (rule ImageSizeCheck_Run_Some)
  then have "Error err = (if OversizedImages err = [] then []
      else ''The following images were over the max file size of ''
           @ Sprint (sint (ImageSizeCheck.MaxImageSize check)) @ ''MiB:\<newline>''
           @ joinImageSizesToString (OversizedImages err) @ ''\<newline>'')
     @ (if InvalidImages err = [] then []
        else ''The following images had an invalid file size of 0 bytes or less:\<newline>''
           @ joinImageSizesToString (InvalidImages err) @ ''\<newline>'')"
    by (simp add: Error_def Let_def)
  moreover have "distinct (map fst (OversizedImages err))" "distinct (map fst (InvalidImages err))"
    using assms by (rule ImageSizeCheck_Run_Some)+
  ultimately show ?thesis
    by (simp only: joinImageSizesToString_Join)
qed

text \<open>The theorem at the check with one image of -5 bytes.\<close>

theorem Error_text_witness:
  "Error \<lparr>ImageSizeError.MaxImageSize = 1, OversizedImages = [],
        InvalidImages = [(''gcr.io/prod/foo'', - 5)]\<rparr> =
     (if OversizedImages \<lparr>ImageSizeError.MaxImageSize = 1, OversizedImages = [],
        InvalidImages = [(''gcr.io/prod/foo'', - 5)]\<rparr> = [] then []
      else ''The following images were over the max file size of ''
           @ Sprint (sint (ImageSizeCheck.MaxImageSize \<lparr>ImageSizeCheck.MaxImageSize = 1, DigestImageSize = [''sha256:dd'' \<mapsto> - 5],
        ImageSizeCheck.PullEdges =
          [\<lparr>DstImageTag = \<lparr>ImageName = ''gcr.io/prod/foo'', Tag = ''1.0''\<rparr>,
          Digest = ''sha256:dd'', ParentDigest = None\<rparr>]\<rparr>)) @ ''MiB:\<newline>''
           @ Join (map (\<lambda>name. name @ '' ('' @
                          Sprint (sint (BytesToMB (the (map_of (OversizedImages \<lparr>ImageSizeError.MaxImageSize = 1, OversizedImages = [],
        InvalidImages = [(''gcr.io/prod/foo'', - 5)]\<rparr>) name))))
                          @ '' MiB)'')
                       (sort (map fst (OversizedImages \<lparr>ImageSizeError.MaxImageSize = 1, OversizedImages = [],
        InvalidImages = [(''gcr.io/prod/foo'', - 5)]\<rparr>)))) ''\<newline>''
           @ ''\<newline>'')
     @ (if InvalidImages \<lparr>ImageSizeError.MaxImageSize = 1, OversizedImages = [],
        InvalidImages = [(''gcr.io/prod/foo'', - 5)]\<rparr> = [] then []
        else ''The following images had an invalid file size of 0 bytes or less:\<newline>''
           @ Join (map (\<lambda>name. name @ '' ('' @
                          Sprint (sint (BytesToMB (the (map_of (InvalidImages \<lparr>ImageSizeError.MaxImageSize = 1, OversizedImages = [],
        InvalidImages = [(''gcr.io/prod/foo'', - 5)]\<rparr>) name))))
                          @ '' MiB)'')
                       (sort (map fst (InvalidImages \<lparr>ImageSizeError.MaxImageSize = 1, OversizedImages = [],
        InvalidImages = [(''gcr.io/prod/foo'', - 5)]\<rparr>)))) ''\<newline>''
           @ ''\<newline>'')
     \<and> distinct (map fst (OversizedImages \<lparr>ImageSizeError.MaxImageSize = 1, OversizedImages = [],
        InvalidImages = [(''gcr.io/prod/foo'', - 5)]\<rparr>)) \<and> distinct (map fst (InvalidImages \<lparr>ImageSizeError.MaxImageSize = 1, OversizedImages = [],
        InvalidImages = [(''gcr.io/prod/foo'', - 5)]\<rparr>))"
  by (rule Error_text)
     (simp add: ImageSizeCheck_Run_def sizeStep_def lookupSize_def MBToBytes_def)

subsection \<open>Construction of the image removal check\<close>

text \<open>On a text that decodes, \<^verbatim>\<open>NewHash\<close> is the decoded bytes; on one that does not,
  it keeps the bytes decoded before the error.\<close>

lemma DecodeString_decodedBytes: "DecodeString s = Inr bs \<Longrightarrow> decodedBytes s = bs"
  by (induction s arbitrary: bs rule: DecodeString.induct)
     (auto split: option.splits sum.splits)

lemma DecodeString_length: "DecodeString s = Inr bs \<Longrightarrow> length s = 2 * length bs"
  by (induction s arbitrary: bs rule: DecodeString.induct)
     (auto split: option.splits sum.splits)

lemma NewHash_decodes:
  assumes "DecodeString s = Inr bs" and "length s = 40"
  shows "NewHash s = bs"
proof -
  from assms have "length bs = 20" by (auto dest: DecodeString_length)
  with assms(1) show ?thesis
    by (simp add: NewHash_def DecodeString_decodedBytes)
qed

lemma NewHash_examples:
  "NewHash ''abzz'' = 0xAB # replicate 19 0"
  "NewHash ''0123456789abcdef0123456789ABCDEF01234567'' =
     [0x01, 0x23, 0x45, 0x67, 0x89, 0xAB, 0xCD, 0xEF, 0x01, 0x23,
      0x45, 0x67, 0x89, 0xAB, 0xCD, 0xEF, 0x01, 0x23, 0x45, 0x67]"
  by (simp_all add: NewHash_def fromHexChar_def Let_def)


lemma char_of_cases:
  assumes "lo \<le> (of_char c :: nat)" and "of_char c \<le> lo + k"
  shows "c \<in> char_of ` {lo..lo + k}"
proof -
  have "c = char_of (of_char c :: nat)" by simp
  moreover have "(of_char c :: nat) \<in> {lo..lo + k}" using assms by simp
  ultimately show ?thesis by (rule image_eqI)
qed

lemma fromHexChar_Some_iff:
  "fromHexChar c \<noteq> None \<longleftrightarrow> c \<in> set ''0123456789abcdefABCDEF''"
proof
  assume "fromHexChar c \<noteq> None"
  then consider "48 \<le> (of_char c :: nat) \<and> (of_char c :: nat) \<le> 48 + 9"
    | "97 \<le> (of_char c :: nat) \<and> (of_char c :: nat) \<le> 97 + 5"
    | "65 \<le> (of_char c :: nat) \<and> (of_char c :: nat) \<le> 65 + 5"
    by (auto simp: fromHexChar_def Let_def split: if_splits)
  then show "c \<in> set ''0123456789abcdefABCDEF''"
  proof cases
    case 1
    then have "c \<in> char_of ` {48 .. 48 + 9 :: nat}" by (intro char_of_cases) simp_all
    also have "{48 .. 48 + 9 :: nat} = set [48 ..< 58]" by (simp only: set_upt) auto
    also have "char_of ` set [48 ..< 58 :: nat] \<subseteq> set ''0123456789abcdefABCDEF''"
      by code_simp
    finally show ?thesis .
  next
    case 2
    then have "c \<in> char_of ` {97 .. 97 + 5 :: nat}" by (intro char_of_cases) simp_all
    also have "{97 .. 97 + 5 :: nat} = set [97 ..< 103]" by (simp only: set_upt) auto
    also have "char_of ` set [97 ..< 103 :: nat] \<subseteq> set ''0123456789abcdefABCDEF''"
      by code_simp
    finally show ?thesis .
  next
    case 3
    then have "c \<in> char_of ` {65 .. 65 + 5 :: nat}" by (intro char_of_cases) simp_all
    also have "{65 .. 65 + 5 :: nat} = set [65 ..< 71]" by (simp only: set_upt) auto
    also have "char_of ` set [65 ..< 71 :: nat] \<subseteq> set ''0123456789abcdefABCDEF''"
      by code_simp
    finally show ?thesis .
  qed
next
  assume "c \<in> set ''0123456789abcdefABCDEF''"
  then show "fromHexChar c \<noteq> None"
    by (auto simp: fromHexChar_def Let_def)
qed

lemma DecodeString_Inr_iff:
  "(\<exists>bs. DecodeString s = Inr bs) \<longleftrightarrow> even (length s) \<and> (\<forall>c \<in> set s. fromHexChar c \<noteq> None)"
  by (induction s rule: DecodeString.induct) (auto split: option.splits sum.splits)

lemma DecodeString_validSHA:
  "length s = 40 \<Longrightarrow> (\<exists>bs. DecodeString s = Inr bs) \<longleftrightarrow> validSHA s"
  by (simp only: DecodeString_Inr_iff validSHA_def fromHexChar_Some_iff) simp


lemma getGitShaFromEnv_valid:
  assumes "validSHA (Getenv env v)"
  shows "getGitShaFromEnv env v = Inr (NewHash (Getenv env v))"
proof -
  from assms have len: "length (Getenv env v) = 40"
    by (simp only: validSHA_def)
  with assms obtain bs where "DecodeString (Getenv env v) = Inr bs"
    using DecodeString_validSHA by blast
  with len show ?thesis
    by (simp only: getGitShaFromEnv_def Let_def) simp
qed

lemma getGitShaFromEnv_invalid:
  assumes "\<not> validSHA (Getenv env v)"
  shows "\<exists>err. getGitShaFromEnv env v = Inl err"
proof (cases "length (Getenv env v) = 40")
  case True
  with assms have "\<nexists>bs. DecodeString (Getenv env v) = Inr bs"
    using DecodeString_validSHA by blast
  then obtain e where "DecodeString (Getenv env v) = Inl e"
    by (cases "DecodeString (Getenv env v)") auto
  with True show ?thesis
    by (simp only: getGitShaFromEnv_def Let_def) simp
next
  case False
  then show ?thesis
    by (simp only: getGitShaFromEnv_def Let_def) simp
qed

lemma Getenv_unset: "env v = None \<Longrightarrow> \<not> validSHA (Getenv env v)"
  by (simp add: Getenv_def validSHA_def)

text \<open>Claim C9: \<^verbatim>\<open>MKRealImageRemovalCheck\<close> fails whenever \<^verbatim>\<open>PULL_BASE_SHA\<close> or
  \<^verbatim>\<open>PULL_PULL_SHA\<close> is not a string of exactly 40 hexadecimal characters, an unset
  variable counting as malformed, and the error names a malformed variable (the
  first of the two when both are); when both are well formed it returns the check,
  holding the two decoded revisions, the repository path and the edges. The
  construction is a function of the environment alone: it has no access to the
  working tree, so it fails before any checkout.\<close>

theorem MKRealImageRemovalCheck_validates:
  "(\<not> validSHA (Getenv env ''PULL_BASE_SHA'') \<longrightarrow>
      (\<exists>err. MKRealImageRemovalCheck env gitRepoPath edges
               = Inl (EnvInvalid ''PULL_BASE_SHA'' err)))
   \<and> (validSHA (Getenv env ''PULL_BASE_SHA'') \<and> \<not> validSHA (Getenv env ''PULL_PULL_SHA'') \<longrightarrow>
      (\<exists>err. MKRealImageRemovalCheck env gitRepoPath edges
               = Inl (EnvInvalid ''PULL_PULL_SHA'' err)))
   \<and> (validSHA (Getenv env ''PULL_BASE_SHA'') \<and> validSHA (Getenv env ''PULL_PULL_SHA'') \<longrightarrow>
      MKRealImageRemovalCheck env gitRepoPath edges
        = Inr \<lparr>GitRepoPath = gitRepoPath,
               MasterSHA = NewHash (Getenv env ''PULL_BASE_SHA''),
               PullRequestSHA = NewHash (Getenv env ''PULL_PULL_SHA''),
               ImageRemovalCheck.PullEdges = edges\<rparr>)
   \<and> (\<forall>v. env v = None \<longrightarrow> \<not> validSHA (Getenv env v))"
proof (intro conjI impI allI)
  assume "\<not> validSHA (Getenv env ''PULL_BASE_SHA'')"
  then obtain err where "getGitShaFromEnv env ''PULL_BASE_SHA'' = Inl err"
    using getGitShaFromEnv_invalid by blast
  then show "\<exists>err. MKRealImageRemovalCheck env gitRepoPath edges
               = Inl (EnvInvalid ''PULL_BASE_SHA'' err)"
    by (simp add: MKRealImageRemovalCheck_def)
next
  assume "validSHA (Getenv env ''PULL_BASE_SHA'') \<and> \<not> validSHA (Getenv env ''PULL_PULL_SHA'')"
  then have base: "getGitShaFromEnv env ''PULL_BASE_SHA'' = Inr (NewHash (Getenv env ''PULL_BASE_SHA''))"
    and "\<exists>err. getGitShaFromEnv env ''PULL_PULL_SHA'' = Inl err"
    by (simp_all add: getGitShaFromEnv_valid getGitShaFromEnv_invalid)
  then obtain err where "getGitShaFromEnv env ''PULL_PULL_SHA'' = Inl err"
    by blast
  with base show "\<exists>err. MKRealImageRemovalCheck env gitRepoPath edges
               = Inl (EnvInvalid ''PULL_PULL_SHA'' err)"
    by (simp add: MKRealImageRemovalCheck_def)
next
  assume "validSHA (Getenv env ''PULL_BASE_SHA'') \<and> validSHA (Getenv env ''PULL_PULL_SHA'')"
  then have "getGitShaFromEnv env ''PULL_BASE_SHA'' = Inr (NewHash (Getenv env ''PULL_BASE_SHA''))"
    and "getGitShaFromEnv env ''PULL_PULL_SHA'' = Inr (NewHash (Getenv env ''PULL_PULL_SHA''))"
    by (simp_all only: getGitShaFromEnv_valid)
  then show "MKRealImageRemovalCheck env gitRepoPath edges
        = Inr \<lparr>GitRepoPath = gitRepoPath,
               MasterSHA = NewHash (Getenv env ''PULL_BASE_SHA''),
               PullRequestSHA = NewHash (Getenv env ''PULL_PULL_SHA''),
               ImageRemovalCheck.PullEdges = edges\<rparr>"
    by (simp add: MKRealImageRemovalCheck_def)
next
  fix v
  assume "env v = None"
  then show "\<not> validSHA (Getenv env v)" by (rule Getenv_unset)
qed


text \<open>The theorem at an environment whose \<^verbatim>\<open>PULL_PULL_SHA\<close> has 39 characters.\<close>

theorem MKRealImageRemovalCheck_validates_witness:
  "validSHA (Getenv [''PULL_BASE_SHA'' \<mapsto> ''0123456789abcdef0123456789ABCDEF01234567'',
                     ''PULL_PULL_SHA'' \<mapsto> ''0123456789abcdef0123456789ABCDEF0123456'']
               ''PULL_BASE_SHA'')
   \<and> \<not> validSHA (Getenv [''PULL_BASE_SHA'' \<mapsto> ''0123456789abcdef0123456789ABCDEF01234567'',
                     ''PULL_PULL_SHA'' \<mapsto> ''0123456789abcdef0123456789ABCDEF0123456'']
               ''PULL_PULL_SHA'')
   \<and> (\<exists>err. MKRealImageRemovalCheck
                [''PULL_BASE_SHA'' \<mapsto> ''0123456789abcdef0123456789ABCDEF01234567'',
                 ''PULL_PULL_SHA'' \<mapsto> ''0123456789abcdef0123456789ABCDEF0123456'']
                ''/repo'' []
              = Inl (EnvInvalid ''PULL_PULL_SHA'' err))"
proof -
  let ?env = "[''PULL_BASE_SHA'' \<mapsto> ''0123456789abcdef0123456789ABCDEF01234567'',
               ''PULL_PULL_SHA'' \<mapsto> ''0123456789abcdef0123456789ABCDEF0123456'']"
  have base: "validSHA (Getenv ?env ''PULL_BASE_SHA'')"
    by (simp add: Getenv_def validSHA_def)
  have pull: "\<not> validSHA (Getenv ?env ''PULL_PULL_SHA'')"
    by (simp add: Getenv_def validSHA_def)
  from MKRealImageRemovalCheck_validates [of ?env "''/repo''" "[]"] base pull
  have "\<exists>err. MKRealImageRemovalCheck ?env ''/repo'' []
              = Inl (EnvInvalid ''PULL_PULL_SHA'' err)"
    by blast
  with base pull show ?thesis by blast
qed

text \<open>A value of 39 characters, a value with a character that is no hexadecimal digit,
  and an unset variable.\<close>

lemma MKRealImageRemovalCheck_examples:
  "MKRealImageRemovalCheck
     [''PULL_BASE_SHA'' \<mapsto> ''0123456789abcdef0123456789ABCDEF01234567'',
      ''PULL_PULL_SHA'' \<mapsto> ''0123456789abcdef0123456789ABCDEF0123456'']
     ''/repo'' []
   = Inl (EnvInvalid ''PULL_PULL_SHA'' (BadLength 39 40))"
  "MKRealImageRemovalCheck
     [''PULL_BASE_SHA'' \<mapsto> ''0123456789abcdef0123456789ABCDEF0123456g'',
      ''PULL_PULL_SHA'' \<mapsto> ''0123456789abcdef0123456789ABCDEF01234567'']
     ''/repo'' []
   = Inl (EnvInvalid ''PULL_BASE_SHA'' (NotValidSHA (InvalidByteError CHR ''g'')))"
  "MKRealImageRemovalCheck
     [''PULL_PULL_SHA'' \<mapsto> ''0123456789abcdef0123456789ABCDEF01234567'']
     ''/repo'' []
   = Inl (EnvInvalid ''PULL_BASE_SHA'' (BadLength 0 40))"
  by (simp_all add: MKRealImageRemovalCheck_def getGitShaFromEnv_def Getenv_def
        fromHexChar_def Let_def)

subsection \<open>The audit verifier\<close>

lemma find_Some_member: "find P xs = Some x \<Longrightarrow> P x \<and> x \<in> set xs"
  by (induction xs) (auto split: if_splits)

text \<open>Claim C6: the verdict on an event is VERIFIED exactly when some edge of the set
  matches it on path, tag and digest; the note is then "agrees with manifest",
  extended by "(parent digest ...)" when the matching edge carries a parent digest;
  the verdict is REJECTED with the reason "could not validate" exactly when no edge
  matches.\<close>

theorem verify_verdict:
  "(fst (verify edges ev) = VERIFIED \<longleftrightarrow> (\<exists>e \<in> set edges. matchesEvent ev e))
   \<and> (\<forall>e \<in> set edges.
         matchesEvent ev e
         \<and> (\<forall>e' \<in> set edges. matchesEvent ev e' \<longrightarrow> ParentDigest e' = ParentDigest e) \<longrightarrow>
         verify edges ev =
           (VERIFIED,
            case ParentDigest e of
              None \<Rightarrow> ''agrees with manifest''
            | Some parent \<Rightarrow> ''agrees with manifest (parent digest '' @ parent @ '')''))
   \<and> ((\<forall>e \<in> set edges. \<not> matchesEvent ev e) \<longleftrightarrow>
        verify edges ev = (REJECTED, ''could not validate''))"
proof (intro conjI ballI impI)
  show "fst (verify edges ev) = VERIFIED \<longleftrightarrow> (\<exists>e \<in> set edges. matchesEvent ev e)"
  proof (cases "find (matchesEvent ev) edges")
    case None
    then have "verify edges ev = (REJECTED, ''could not validate'')"
      by (simp add: verify_def)
    moreover from None have "\<forall>e \<in> set edges. \<not> matchesEvent ev e"
      by (simp add: find_None_iff)
    ultimately show ?thesis by simp
  next
    case (Some e')
    then have "matchesEvent ev e' \<and> e' \<in> set edges" by (rule find_Some_member)
    with Some show ?thesis by (auto simp: verify_def)
  qed
next
  fix e
  assume e: "matchesEvent ev e
         \<and> (\<forall>e' \<in> set edges. matchesEvent ev e' \<longrightarrow> ParentDigest e' = ParentDigest e)"
    and mem: "e \<in> set edges"
  then obtain e' where found: "find (matchesEvent ev) edges = Some e'"
    by (cases "find (matchesEvent ev) edges") (auto simp: find_None_iff)
  then have "e' \<in> set edges" and "matchesEvent ev e'"
    using find_Some_member [of "matchesEvent ev" edges e'] by simp_all
  with e have "ParentDigest e' = ParentDigest e" by blast
  with found show "verify edges ev =
           (VERIFIED,
            case ParentDigest e of
              None \<Rightarrow> ''agrees with manifest''
            | Some parent \<Rightarrow> ''agrees with manifest (parent digest '' @ parent @ '')'')"
    by (simp add: verify_def agreement_def)
next
  show "(\<forall>e \<in> set edges. \<not> matchesEvent ev e) \<longleftrightarrow>
        verify edges ev = (REJECTED, ''could not validate'')"
  proof (cases "find (matchesEvent ev) edges")
    case None
    then have "verify edges ev = (REJECTED, ''could not validate'')"
      by (simp add: verify_def)
    moreover from None have "\<forall>e \<in> set edges. \<not> matchesEvent ev e"
      by (simp add: find_None_iff)
    ultimately show ?thesis by simp
  next
    case (Some e')
    then have "matchesEvent ev e' \<and> e' \<in> set edges" by (rule find_Some_member)
    with Some show ?thesis by (auto simp: verify_def)
  qed
qed


text \<open>The theorem at the specification's example: against the one edge with tag \<open>1.0\<close>,
  the event with tag \<open>2.0\<close> and the same path and digest is rejected, and the event
  with tag \<open>1.0\<close> is verified.\<close>

theorem verify_verdict_witness:
  "verify
     [\<lparr>DstImageTag = \<lparr>ImageName = ''gcr.io/prod/bar'', Tag = ''1.0''\<rparr>,
       Digest = ''sha256:408d'', ParentDigest = None\<rparr>]
     \<lparr>Action = INSERT, Path = ''gcr.io/prod/bar'', EventDigest = ''sha256:408d'',
      EventTag = ''2.0''\<rparr>
   = (REJECTED, ''could not validate'')
   \<and> verify
     [\<lparr>DstImageTag = \<lparr>ImageName = ''gcr.io/prod/bar'', Tag = ''1.0''\<rparr>,
       Digest = ''sha256:408d'', ParentDigest = None\<rparr>]
     \<lparr>Action = INSERT, Path = ''gcr.io/prod/bar'', EventDigest = ''sha256:408d'',
      EventTag = ''1.0''\<rparr>
   = (VERIFIED, ''agrees with manifest'')"
proof -
  let ?edges = "[\<lparr>DstImageTag = \<lparr>ImageName = ''gcr.io/prod/bar'', Tag = ''1.0''\<rparr>,
                  Digest = ''sha256:408d'', ParentDigest = None\<rparr>]"
  let ?ev1 = "\<lparr>Action = INSERT, Path = ''gcr.io/prod/bar'', EventDigest = ''sha256:408d'',
               EventTag = ''1.0''\<rparr>"
  let ?ev2 = "\<lparr>Action = INSERT, Path = ''gcr.io/prod/bar'', EventDigest = ''sha256:408d'',
               EventTag = ''2.0''\<rparr>"
  have "\<forall>e \<in> set ?edges. \<not> matchesEvent ?ev2 e"
    by (simp add: matchesEvent_def)
  with verify_verdict [of ?edges ?ev2]
  have rejected: "verify ?edges ?ev2 = (REJECTED, ''could not validate'')"
    by blast
  have "matchesEvent ?ev1 (hd ?edges)"
    by (simp add: matchesEvent_def)
  with verify_verdict [of ?edges ?ev1]
  have "verify ?edges ?ev1 = (VERIFIED, ''agrees with manifest'')"
    by simp
  with rejected show ?thesis by blast
qed

text \<open>The model prints the two lines that the end-to-end test \<open>basic\<close> expects in the
  log (\<^verbatim>\<open>test-e2e/cip-auditor/tests.yaml\<close>), and a child of a fat manifest is verified
  with its parent digest.\<close>

lemma transactionLine_basic:
  "transactionLine
     [\<lparr>DstImageTag = \<lparr>ImageName = ''us.gcr.io/k8s-gcr-audit-test-prod/golden-bar/bar'', Tag = ''1.0''\<rparr>,
       Digest = ''sha256:408d6837313f95f081d5d02cc2691344c5781d43e98653f4af6cf9c1b8d26166'',
       ParentDigest = None\<rparr>]
     \<lparr>Action = INSERT, Path = ''us.gcr.io/k8s-gcr-audit-test-prod/golden-bar/bar'',
      EventDigest = ''sha256:408d6837313f95f081d5d02cc2691344c5781d43e98653f4af6cf9c1b8d26166'',
      EventTag = ''1.0''\<rparr>
   = ''TRANSACTION VERIFIED: {Action: \"INSERT\", FQIN: \"us.gcr.io/k8s-gcr-audit-test-prod/golden-bar/bar@sha256:408d6837313f95f081d5d02cc2691344c5781d43e98653f4af6cf9c1b8d26166\", PQIN: \"us.gcr.io/k8s-gcr-audit-test-prod/golden-bar/bar:1.0\", Path: \"us.gcr.io/k8s-gcr-audit-test-prod/golden-bar/bar\", Digest: \"sha256:408d6837313f95f081d5d02cc2691344c5781d43e98653f4af6cf9c1b8d26166\", Tag: \"1.0\"}: agrees with manifest''"
  "transactionLine
     [\<lparr>DstImageTag = \<lparr>ImageName = ''us.gcr.io/k8s-gcr-audit-test-prod/golden-bar/bar'', Tag = ''1.0''\<rparr>,
       Digest = ''sha256:408d6837313f95f081d5d02cc2691344c5781d43e98653f4af6cf9c1b8d26166'',
       ParentDigest = None\<rparr>]
     \<lparr>Action = INSERT, Path = ''us.gcr.io/k8s-gcr-audit-test-prod/golden-bar/bar'',
      EventDigest = ''sha256:408d6837313f95f081d5d02cc2691344c5781d43e98653f4af6cf9c1b8d26166'',
      EventTag = ''2.0''\<rparr>
   = ''TRANSACTION REJECTED: {Action: \"INSERT\", FQIN: \"us.gcr.io/k8s-gcr-audit-test-prod/golden-bar/bar@sha256:408d6837313f95f081d5d02cc2691344c5781d43e98653f4af6cf9c1b8d26166\", PQIN: \"us.gcr.io/k8s-gcr-audit-test-prod/golden-bar/bar:2.0\", Path: \"us.gcr.io/k8s-gcr-audit-test-prod/golden-bar/bar\", Digest: \"sha256:408d6837313f95f081d5d02cc2691344c5781d43e98653f4af6cf9c1b8d26166\", Tag: \"2.0\"}: could not validate''"
  by (simp_all add: transactionLine_def verify_def matchesEvent_def agreement_def)

lemma verify_fat_manifest_child:
  "verify
     [\<lparr>DstImageTag = \<lparr>ImageName = ''gcr.io/prod/foo'', Tag = []\<rparr>,
       Digest = ''sha256:2af5'', ParentDigest = Some ''sha256:a42e''\<rparr>,
      \<lparr>DstImageTag = \<lparr>ImageName = ''gcr.io/prod/foo'', Tag = ''1.0''\<rparr>,
       Digest = ''sha256:a42e'', ParentDigest = None\<rparr>]
     \<lparr>Action = INSERT, Path = ''gcr.io/prod/foo'', EventDigest = ''sha256:2af5'',
      EventTag = []\<rparr>
   = (VERIFIED, ''agrees with manifest (parent digest sha256:a42e)'')"
  by (simp add: verify_def matchesEvent_def agreement_def)

end
